theory Spec2Isabelle
  imports Main "HOL-Library.Char_ord" "HOL-Library.List_Lexorder" "HOL-Library.Word"
begin

section \<open>JSON values and \<open>JSON.stringify\<close> with a property-list replacer\<close>

text \<open>
  The service builds its signing input with
  \<^verbatim>\<open>JSON.stringify(obj, Object.keys(obj).sort())\<close>.
  When the second argument of \<open>JSON.stringify\<close> is an array, ECMAScript uses it as the
  property list \<open>K\<close> of \<^emph>\<open>every\<close> object that is serialised, at every nesting level: the
  members of an object are written in the order of \<open>K\<close>, and an own property whose name is
  not in \<open>K\<close> is left out. Array elements are always written.

  A JavaScript object is an association list in insertion order. Numbers are restricted
  to integers (the only numbers the credential holds are tiers and amounts), and a string
  is a list of 8-bit code units.
\<close>

datatype json =
    JNull
  | JBool bool
  | JNum int
  | JStr string
  | JArr "json list"
  | JObj "(string \<times> json) list"

definition hexDigit :: "nat \<Rightarrow> char" where
  "hexDigit n = ''0123456789abcdef'' ! (n mod 16)"

text \<open>\<open>QuoteJSONString\<close>: the escapes of the ECMAScript specification.\<close>

definition escapeChar :: "char \<Rightarrow> string" where
  "escapeChar c =
     (if c = CHR 0x08 then [CHR 0x5C, CHR ''b'']
      else if c = CHR 0x09 then [CHR 0x5C, CHR ''t'']
      else if c = CHR 0x0A then [CHR 0x5C, CHR ''n'']
      else if c = CHR 0x0C then [CHR 0x5C, CHR ''f'']
      else if c = CHR 0x0D then [CHR 0x5C, CHR ''r'']
      else if c = CHR 0x22 then [CHR 0x5C, CHR 0x22]
      else if c = CHR 0x5C then [CHR 0x5C, CHR 0x5C]
      else if (of_char c :: nat) < 32
        then [CHR 0x5C, CHR ''u'', CHR ''0'', CHR ''0'',
              hexDigit (of_char c div 16), hexDigit (of_char c mod 16)]
      else [c])"

definition quoteJSONString :: "string \<Rightarrow> string" where
  "quoteJSONString s = [CHR 0x22] @ concat (map escapeChar s) @ [CHR 0x22]"

text \<open>\<open>Number.prototype.toString\<close> on integers: decimal digits.\<close>

function showNat :: "nat \<Rightarrow> string" where
  "showNat n = (if n < 10 then [hexDigit n] else showNat (n div 10) @ [hexDigit (n mod 10)])"
  by pat_completeness auto
termination
  by (relation "measure (\<lambda>n. n)") auto

definition showInt :: "int \<Rightarrow> string" where
  "showInt i = (if i < 0 then CHR ''-'' # showNat (nat (- i)) else showNat (nat i))"

fun joinWith :: "string \<Rightarrow> string list \<Rightarrow> string" where
  "joinWith sep [] = []"
| "joinWith sep [x] = x"
| "joinWith sep (x # y # ys) = x @ sep @ joinWith sep (y # ys)"

text \<open>
  \<open>SerializeJSONProperty\<close> / \<open>SerializeJSONObject\<close> / \<open>SerializeJSONArray\<close> with property
  list \<open>K\<close>. For an object, each \<open>P\<close> of \<open>K\<close> is looked up in the object; a missing property
  is skipped, a present one contributes \<open>quote(P) : value\<close>.
\<close>

fun serializeJSON :: "string list \<Rightarrow> json \<Rightarrow> string" where
  "serializeJSON K JNull = ''null''"
| "serializeJSON K (JBool b) = (if b then ''true'' else ''false'')"
| "serializeJSON K (JNum n) = showInt n"
| "serializeJSON K (JStr s) = quoteJSONString s"
| "serializeJSON K (JArr xs) = ''['' @ joinWith '','' (map (serializeJSON K) xs) @ '']''"
| "serializeJSON K (JObj kvs) =
     (let rendered = map (\<lambda>kv. (fst kv, serializeJSON K (snd kv))) kvs
      in ''{'' @ joinWith '',''
           (List.map_filter
              (\<lambda>P. map_option (\<lambda>strP. quoteJSONString P @ '':'' @ strP) (map_of rendered P)) K)
         @ ''}'')"

text \<open>
  \<^verbatim>\<open>JSON.stringify(obj, Object.keys(obj).sort())\<close> for an object with members \<open>kvs\<close>.
  \<open>Array.prototype.sort\<close> without a comparator orders strings by code unit.
\<close>

definition canonicalize :: "(string \<times> json) list \<Rightarrow> string" where
  "canonicalize kvs = serializeJSON (sort (map fst kvs)) (JObj kvs)"

text \<open>
  Two JSON values are the same payload when they agree up to the insertion order of
  object members, at every nesting level. Object keys are unique, as in JavaScript.
\<close>

function samePayload :: "json \<Rightarrow> json \<Rightarrow> bool" where
  "samePayload (JObj a) y =
     (case y of
        JObj b \<Rightarrow>
          distinct (map fst a) \<and> distinct (map fst b) \<and> set (map fst a) = set (map fst b) \<and>
          list_all (\<lambda>kv. case map_of b (fst kv) of
                           None \<Rightarrow> False
                         | Some v' \<Rightarrow> samePayload (snd kv) v') a
      | _ \<Rightarrow> False)"
| "samePayload (JArr xs) y =
     (case y of
        JArr ys \<Rightarrow>
          length xs = length ys \<and> list_all (\<lambda>p. samePayload (fst p) (snd p)) (zip xs ys)
      | _ \<Rightarrow> False)"
| "samePayload JNull y = (y = JNull)"
| "samePayload (JBool b) y = (y = JBool b)"
| "samePayload (JNum n) y = (y = JNum n)"
| "samePayload (JStr s) y = (y = JStr s)"
  by pat_completeness auto
termination
proof (relation "measure (\<lambda>p. size (fst p))")
  show "wf (measure (\<lambda>p. size (fst p)))" by simp
next
  fix a :: "(string \<times> json) list" and y :: json and x6 :: "(string \<times> json) list"
    and x :: "string \<times> json" and x2 :: json
  assume "x \<in> set a"
  then have "size (snd x) < size (JObj a)"
    by (induction a) auto
  then show "((snd x, x2), (JObj a, y)) \<in> measure (\<lambda>p. size (fst p))" by simp
next
  fix xs :: "json list" and y :: json and x5 :: "json list" and x :: "json \<times> json"
  assume "x \<in> set (zip xs x5)"
  then have "fst x \<in> set xs" by (metis prod.collapse set_zip_leftD)
  then have "size (fst x) < size (JArr xs)"
    by (induction xs) auto
  then show "((fst x, snd x), (JArr xs, y)) \<in> measure (\<lambda>p. size (fst p))" by simp
qed

section \<open>Node buffers: hexadecimal encoding\<close>

type_synonym byte = "8 word"

definition hexValue :: "char \<Rightarrow> nat option" where
  "hexValue c =
     (let n = (of_char c :: nat) in
      if 48 \<le> n \<and> n \<le> 57 then Some (n - 48)
      else if 97 \<le> n \<and> n \<le> 102 then Some (n - 87)
      else if 65 \<le> n \<and> n \<le> 70 then Some (n - 55)
      else None)"

text \<open>
  \<^verbatim>\<open>Buffer.from(s, 'hex')\<close>: decodes pairs of hexadecimal digits and stops, without an
  error, at the first pair that is not two hexadecimal digits; a trailing single
  character is dropped.
\<close>

fun hexDecode :: "string \<Rightarrow> byte list" where
  "hexDecode (a # b # rest) =
     (case hexValue a of
        None \<Rightarrow> []
      | Some h \<Rightarrow>
          (case hexValue b of
             None \<Rightarrow> []
           | Some l \<Rightarrow> word_of_nat (16 * h + l) # hexDecode rest))"
| "hexDecode _ = []"

text \<open>\<^verbatim>\<open>Buffer.from(bytes).toString('hex')\<close>: two lower-case digits per byte.\<close>

definition hexEncode :: "byte list \<Rightarrow> string" where
  "hexEncode bs = concat (map (\<lambda>b. [hexDigit (unat b div 16), hexDigit (unat b mod 16)]) bs)"

section \<open>Data model (\<open>types/credentials.ts\<close>)\<close>

text \<open>
  String-literal union types (\<open>'passed' | 'failed' | 'pending'\<close>, the algorithm tags, ...)
  are strings at run time and are modelled as strings. Optional members are options.
  Field names carry a prefix per interface, since several interfaces share member names.
\<close>

record DIDDocument =
  did_id :: string
  did_name :: string
  did_jurisdiction :: "string list option"
  did_regulators :: "string list option"
  did_tier :: "int option"

record HashedPII =
  pii_name :: string
  pii_dateOfBirth :: string
  pii_citizenship :: string
  pii_address :: string

record KYCClaims =
  claim_kycLevel :: string
  claim_amlScreening :: string
  claim_sanctionsCheck :: string
  claim_pepScreening :: string
  claim_sourceOfFunds :: string
  claim_accreditedInvestor :: bool
  claim_entityType :: string

record AmountVerification =
  amt_value :: int
  amt_currency :: string

record CredentialSubject =
  subj_id :: string
  subj_hashedPII :: HashedPII
  subj_claims :: KYCClaims
  subj_amountVerifiedFor :: AmountVerification
  subj_tier :: int
  subj_jurisdictions :: "string list"

record CredentialStatus =
  status_id :: string
  status_type :: string
  status_registryContract :: "string option"
  status_tokenId :: "string option"

record Proof =
  proof_type :: string
  proof_created :: string
  proof_verificationMethod :: string
  proof_proofPurpose :: string
  proof_proofValue :: string

text \<open>
  The object literal \<open>unsignedCredential\<close> of \<open>issueCredential\<close>, and the rest object
  \<open>credentialWithoutProof\<close> of \<open>verifyCredential\<close>: a credential without its proof.
\<close>

record UnsignedCredential =
  vc_context :: "string list"
  vc_id :: string
  vc_type :: "string list"
  vc_issuer :: DIDDocument
  vc_issuanceDate :: string
  vc_expirationDate :: string
  vc_credentialSubject :: CredentialSubject
  vc_decommissionedAt :: "string option"
  vc_credentialStatus :: CredentialStatus

record VerifiableCredential = UnsignedCredential +
  vc_proof :: Proof

record IssueCredentialRequest =
  req_customerKycId :: string
  req_issuerDid :: string
  req_kycLevel :: string
  req_accreditedInvestor :: bool
  req_jurisdiction :: "string list"
  req_expiryDays :: "int option"
  req_signatureAlgorithm :: "string option"

record CustomerKYCData =
  kyc_kycId :: string
  kyc_name :: string
  kyc_dateOfBirth :: string
  kyc_citizenship :: string
  kyc_address :: string
  kyc_kycLevel :: string
  kyc_amlScreening :: string
  kyc_sanctionsCheck :: string
  kyc_pepScreening :: string
  kyc_sourceOfFunds :: string
  kyc_accreditedInvestor :: bool
  kyc_entityType :: string
  kyc_verifiedAmount :: int
  kyc_currency :: string
  kyc_tier :: int
  kyc_jurisdictions :: "string list"
  kyc_userDid :: "string option"

record BankIssuer =
  iss_did :: string
  iss_name :: string
  iss_jurisdiction :: "string list"
  iss_regulators :: "string list"
  iss_tier :: int
  iss_privateKey :: string
  iss_publicKey :: string
  iss_signatureAlgorithm :: string

section \<open>The run-time environment\<close>

text \<open>
  Everything the service calls that is not code of the repository is a parameter:
  \<^item> \<open>lib_sha256Hex data\<close> is \<^verbatim>\<open>createHash('sha256').update(data).digest('hex')\<close>;
  \<^item> \<open>lib_ed25519_sign msg key\<close> is \<^verbatim>\<open>ed25519.sign(msg, key)\<close> on byte arrays; \<open>Inl m\<close> is
    a thrown error with message \<open>m\<close>;
  \<^item> \<open>lib_ed25519_verify sig msg pub\<close> is \<^verbatim>\<open>ed25519.verify(sig, msg, pub)\<close>; \<open>None\<close> is a
    thrown error;
  \<^item> \<open>lib_secp256k1_sign hash key\<close> is \<^verbatim>\<open>secp256k1.sign(hash, key).toCompactHex()\<close>;
  \<^item> \<open>lib_secp256k1_verify sigHex hash pub\<close> is
    \<^verbatim>\<open>secp256k1.verify(secp256k1.Signature.fromCompact(sigHex), hash, pub)\<close>; \<open>None\<close> is
    a thrown error of either call;
  \<^item> \<open>lib_toISOString t\<close> is \<^verbatim>\<open>new Date(t).toISOString()\<close> for the instant \<open>t\<close> in
    milliseconds since the epoch;
  \<^item> \<open>lib_parseDate s\<close> is the time value of \<^verbatim>\<open>new Date(s)\<close>; \<open>None\<close> is an invalid date
    (time value \<open>NaN\<close>);
  \<^item> \<open>store_issuers\<close> is the \<open>ISSUER_REGISTRY\<close> map of \<open>config/bank-issuers.ts\<close> and
    \<open>store_customers\<close> the \<open>kycDatabase\<close> map of \<open>mocks/kyc-database.ts\<close>.
\<close>

record world =
  lib_sha256Hex :: "string \<Rightarrow> string"
  lib_ed25519_sign :: "byte list \<Rightarrow> byte list \<Rightarrow> string + byte list"
  lib_ed25519_verify :: "byte list \<Rightarrow> byte list \<Rightarrow> byte list \<Rightarrow> bool option"
  lib_secp256k1_sign :: "string \<Rightarrow> byte list \<Rightarrow> string + string"
  lib_secp256k1_verify :: "string \<Rightarrow> string \<Rightarrow> byte list \<Rightarrow> bool option"
  lib_toISOString :: "int \<Rightarrow> string"
  lib_parseDate :: "string \<Rightarrow> int option"
  store_issuers :: "string \<Rightarrow> BankIssuer option"
  store_customers :: "string \<Rightarrow> CustomerKYCData option"

text \<open>
  What one call of \<open>issueCredential\<close> reads from the clock and the random generator:
  \<open>tick_dateNow\<close> is the \<^verbatim>\<open>Date.now()\<close> of \<open>generateCredentialId\<close>, \<open>tick_newDate\<close> the
  \<^verbatim>\<open>new Date()\<close> of the issuance date, \<open>tick_random\<close> the value of
  \<^verbatim>\<open>Math.floor(Math.random() * 100000)\<close>.
\<close>

record tick =
  tick_dateNow :: int
  tick_newDate :: int
  tick_random :: nat

section \<open>Errors\<close>

text \<open>
  Every \<open>throw new Error(...)\<close> of the service and of \<open>utils/crypto.ts\<close>, named after the
  error taxonomy; \<open>errorMessage\<close> is the message the code gives it. \<open>LibraryError\<close> is an
  error thrown by a signing library.
\<close>

datatype error =
    UnknownIssuer string
  | UnknownCustomer string
  | ComplianceCheckFailed
  | LevelMismatch string string
  | AccreditationMismatch
  | UnsupportedAlgorithm string
  | LibraryError string

fun errorMessage :: "error \<Rightarrow> string" where
  "errorMessage (UnknownIssuer did) = ''Invalid issuer DID: '' @ did"
| "errorMessage (UnknownCustomer kycId) = ''Customer not found: '' @ kycId"
| "errorMessage ComplianceCheckFailed = ''Customer has not passed all required KYC checks''"
| "errorMessage (LevelMismatch requested actual) =
     ''KYC level mismatch: requested '' @ requested @ '', customer has '' @ actual"
| "errorMessage AccreditationMismatch = ''Accredited investor status mismatch''"
| "errorMessage (UnsupportedAlgorithm alg) = ''Unsupported signature algorithm: '' @ alg"
| "errorMessage (LibraryError m) = m"

text \<open>The entries \<open>verifyCredential\<close> pushes on its \<open>errors\<close> array.\<close>

datatype verification_error =
    Expired
  | Revoked
  | IssuerNotFound
  | InvalidSignature
  | VerificationError string

fun verificationMessage :: "verification_error \<Rightarrow> string" where
  "verificationMessage Expired = ''Credential has expired''"
| "verificationMessage Revoked = ''Credential has been decommissioned''"
| "verificationMessage IssuerNotFound = ''Unknown issuer''"
| "verificationMessage InvalidSignature = ''Invalid signature''"
| "verificationMessage (VerificationError m) = ''Verification error: '' @ m"

record VerificationResult =
  valid :: bool
  errors :: "verification_error list"

section \<open>\<open>utils/crypto.ts\<close>\<close>

definition sha256Hash :: "world \<Rightarrow> string \<Rightarrow> string" where
  "sha256Hash w data = lib_sha256Hex w data"

text \<open>A missing or empty salt is falsy: the value is hashed alone.\<close>

definition hashPII :: "world \<Rightarrow> string \<Rightarrow> string option \<Rightarrow> string" where
  "hashPII w val salt =
     (let dataToHash =
        (case salt of
           None \<Rightarrow> val
         | Some s \<Rightarrow> if s = [] then val else val @ '':'' @ s)
      in ''0x'' @ sha256Hash w dataToHash)"

definition signWithEd25519 :: "world \<Rightarrow> string \<Rightarrow> string \<Rightarrow> error + string" where
  "signWithEd25519 w data privateKeyHex =
     (let privateKey = hexDecode privateKeyHex;
          messageHash = hexDecode (sha256Hash w data)
      in case lib_ed25519_sign w messageHash privateKey of
           Inl m \<Rightarrow> Inl (LibraryError m)
         | Inr signature \<Rightarrow> Inr (CHR ''z'' # hexEncode signature))"

definition signWithSecp256k1 :: "world \<Rightarrow> string \<Rightarrow> string \<Rightarrow> error + string" where
  "signWithSecp256k1 w data privateKeyHex =
     (let privateKey = hexDecode privateKeyHex;
          messageHash = sha256Hash w data
      in case lib_secp256k1_sign w messageHash privateKey of
           Inl m \<Rightarrow> Inl (LibraryError m)
         | Inr compactHex \<Rightarrow> Inr (CHR ''z'' # compactHex))"

definition signCredential :: "world \<Rightarrow> string \<Rightarrow> string \<Rightarrow> string \<Rightarrow> error + string" where
  "signCredential w credentialData privateKey algorithm =
     (if algorithm = ''Ed25519'' then signWithEd25519 w credentialData privateKey
      else if algorithm = ''secp256k1'' then signWithSecp256k1 w credentialData privateKey
      else Inl (UnsupportedAlgorithm algorithm))"

text \<open>
  Both verifiers run inside \<open>try { ... } catch { return false }\<close>: an error thrown by the
  library becomes \<open>false\<close>. \<open>slice(1)\<close> drops the first character, whatever it is.
\<close>

definition verifyEd25519 :: "world \<Rightarrow> string \<Rightarrow> string \<Rightarrow> string \<Rightarrow> bool" where
  "verifyEd25519 w data signatureWithPrefix publicKeyHex =
     (let signature = hexDecode (drop 1 signatureWithPrefix);
          publicKey = hexDecode publicKeyHex;
          messageHash = hexDecode (sha256Hash w data)
      in case lib_ed25519_verify w signature messageHash publicKey of
           None \<Rightarrow> False
         | Some ok \<Rightarrow> ok)"

definition verifySecp256k1 :: "world \<Rightarrow> string \<Rightarrow> string \<Rightarrow> string \<Rightarrow> bool" where
  "verifySecp256k1 w data signatureWithPrefix publicKeyHex =
     (let signatureHex = drop 1 signatureWithPrefix;
          publicKey = hexDecode publicKeyHex;
          messageHash = sha256Hash w data
      in case lib_secp256k1_verify w signatureHex messageHash publicKey of
           None \<Rightarrow> False
         | Some ok \<Rightarrow> ok)"

definition verifySignature :: "world \<Rightarrow> string \<Rightarrow> string \<Rightarrow> string \<Rightarrow> string \<Rightarrow> error + bool" where
  "verifySignature w credentialData signature publicKey algorithm =
     (if algorithm = ''Ed25519'' then Inr (verifyEd25519 w credentialData signature publicKey)
      else if algorithm = ''secp256k1''
        then Inr (verifySecp256k1 w credentialData signature publicKey)
      else Inl (UnsupportedAlgorithm algorithm))"

text \<open>\<open>dateNow\<close> is the value of \<^verbatim>\<open>Date.now()\<close> read inside the function.\<close>

definition generateCredentialId :: "world \<Rightarrow> int \<Rightarrow> string \<Rightarrow> string \<Rightarrow> string" where
  "generateCredentialId w dateNow issuerDid subjectId =
     (let combined = issuerDid @ '':'' @ subjectId @ '':'' @ showInt dateNow;
          hash = sha256Hash w combined
      in ''did:did3:credential:'' @ take 16 hash)"

text \<open>\<^verbatim>\<open>credentialId.split(':').pop() || ''\<close>: what follows the last colon.\<close>

definition generateStatusUrl :: "string \<Rightarrow> string" where
  "generateStatusUrl credentialId =
     (let hash = rev (takeWhile (\<lambda>c. c \<noteq> CHR '':'') (rev credentialId))
      in ''https://did3.org/credentials/status/'' @ hash)"

section \<open>\<open>config/bank-issuers.ts\<close> and \<open>mocks/kyc-database.ts\<close>\<close>

definition getIssuerByDid :: "world \<Rightarrow> string \<Rightarrow> BankIssuer option" where
  "getIssuerByDid w did = store_issuers w did"

definition getCustomerKYC :: "world \<Rightarrow> string \<Rightarrow> CustomerKYCData option" where
  "getCustomerKYC w kycId = store_customers w kycId"

section \<open>\<open>services/credential-issuer.ts\<close>\<close>

text \<open>The credential as a JavaScript object, members in the order of the object literal.\<close>

definition optionalMember :: "string \<Rightarrow> ('a \<Rightarrow> json) \<Rightarrow> 'a option \<Rightarrow> (string \<times> json) list" where
  "optionalMember k f v = (case v of None \<Rightarrow> [] | Some x \<Rightarrow> [(k, f x)])"

definition stringArray :: "string list \<Rightarrow> json" where
  "stringArray xs = JArr (map JStr xs)"

definition issuerObject :: "DIDDocument \<Rightarrow> json" where
  "issuerObject d =
     JObj ([(''id'', JStr (did_id d)), (''name'', JStr (did_name d))]
           @ optionalMember ''jurisdiction'' stringArray (did_jurisdiction d)
           @ optionalMember ''regulators'' stringArray (did_regulators d)
           @ optionalMember ''tier'' JNum (did_tier d))"

definition hashedPIIObject :: "HashedPII \<Rightarrow> json" where
  "hashedPIIObject h =
     JObj [(''name'', JStr (pii_name h)), (''dateOfBirth'', JStr (pii_dateOfBirth h)),
           (''citizenship'', JStr (pii_citizenship h)), (''address'', JStr (pii_address h))]"

definition claimsObject :: "KYCClaims \<Rightarrow> json" where
  "claimsObject c =
     JObj [(''kycLevel'', JStr (claim_kycLevel c)),
           (''amlScreening'', JStr (claim_amlScreening c)),
           (''sanctionsCheck'', JStr (claim_sanctionsCheck c)),
           (''pepScreening'', JStr (claim_pepScreening c)),
           (''sourceOfFunds'', JStr (claim_sourceOfFunds c)),
           (''accreditedInvestor'', JBool (claim_accreditedInvestor c)),
           (''entityType'', JStr (claim_entityType c))]"

definition amountObject :: "AmountVerification \<Rightarrow> json" where
  "amountObject a = JObj [(''value'', JNum (amt_value a)), (''currency'', JStr (amt_currency a))]"

definition subjectObject :: "CredentialSubject \<Rightarrow> json" where
  "subjectObject s =
     JObj [(''id'', JStr (subj_id s)),
           (''hashedPII'', hashedPIIObject (subj_hashedPII s)),
           (''claims'', claimsObject (subj_claims s)),
           (''amountVerifiedFor'', amountObject (subj_amountVerifiedFor s)),
           (''tier'', JNum (subj_tier s)),
           (''jurisdictions'', stringArray (subj_jurisdictions s))]"

definition statusObject :: "CredentialStatus \<Rightarrow> json" where
  "statusObject s =
     JObj ([(''id'', JStr (status_id s)), (''type'', JStr (status_type s))]
           @ optionalMember ''registryContract'' JStr (status_registryContract s)
           @ optionalMember ''tokenId'' JStr (status_tokenId s))"

definition credentialMembers :: "'a UnsignedCredential_scheme \<Rightarrow> (string \<times> json) list" where
  "credentialMembers c =
     [(''@context'', stringArray (vc_context c)),
      (''id'', JStr (vc_id c)),
      (''type'', stringArray (vc_type c)),
      (''issuer'', issuerObject (vc_issuer c)),
      (''issuanceDate'', JStr (vc_issuanceDate c)),
      (''expirationDate'', JStr (vc_expirationDate c)),
      (''credentialSubject'', subjectObject (vc_credentialSubject c)),
      (''decommissionedAt'', (case vc_decommissionedAt c of None \<Rightarrow> JNull | Some s \<Rightarrow> JStr s)),
      (''credentialStatus'', statusObject (vc_credentialStatus c))]"

text \<open>
  \<open>canonicalData\<close>: the string both \<open>issueCredential\<close> (step 9) and \<open>verifyCredential\<close>
  (step 4) compute from the credential without its proof.
\<close>

definition canonicalData :: "'a UnsignedCredential_scheme \<Rightarrow> string" where
  "canonicalData c = canonicalize (credentialMembers c)"

text \<open>
  \<^verbatim>\<open>expirationDate.setDate(expirationDate.getDate() + expiryDays)\<close> on time values, in a
  time zone without a clock change between the two dates: whole days of 86400000 ms.
\<close>

definition addDays :: "int \<Rightarrow> int \<Rightarrow> int" where
  "addDays t days = t + days * 86400000"

text \<open>Step 5: \<^verbatim>\<open>kycData.userDid || `did:did3:user:${request.customerKycId}`\<close>.\<close>

definition subjectDidOf :: "IssueCredentialRequest \<Rightarrow> CustomerKYCData \<Rightarrow> string" where
  "subjectDidOf request kycData =
     (case kyc_userDid kycData of
        None \<Rightarrow> ''did:did3:user:'' @ req_customerKycId request
      | Some d \<Rightarrow> (if d = [] then ''did:did3:user:'' @ req_customerKycId request else d))"

text \<open>Step 5: \<^verbatim>\<open>request.expiryDays || 365\<close>; a missing value and \<open>0\<close> are falsy.\<close>

definition expiryDaysOf :: "IssueCredentialRequest \<Rightarrow> int" where
  "expiryDaysOf request =
     (case req_expiryDays request of
        None \<Rightarrow> 365
      | Some n \<Rightarrow> (if n = 0 then 365 else n))"

text \<open>Step 10: \<^verbatim>\<open>request.signatureAlgorithm || issuer.signatureAlgorithm\<close>.\<close>

definition signatureAlgorithmOf :: "IssueCredentialRequest \<Rightarrow> BankIssuer \<Rightarrow> string" where
  "signatureAlgorithmOf request issuer =
     (case req_signatureAlgorithm request of
        None \<Rightarrow> iss_signatureAlgorithm issuer
      | Some a \<Rightarrow> (if a = [] then iss_signatureAlgorithm issuer else a))"

text \<open>Steps 6 and 7: the object literal \<open>credentialSubject\<close>.\<close>

definition credentialSubjectOf ::
  "world \<Rightarrow> IssueCredentialRequest \<Rightarrow> CustomerKYCData \<Rightarrow> string \<Rightarrow> CredentialSubject" where
  "credentialSubjectOf w request kycData subjectDid =
     \<lparr> subj_id = subjectDid,
       subj_hashedPII =
         \<lparr> pii_name = hashPII w (kyc_name kycData) None,
           pii_dateOfBirth = hashPII w (kyc_dateOfBirth kycData) None,
           pii_citizenship = hashPII w (kyc_citizenship kycData) None,
           pii_address = hashPII w (kyc_address kycData) None \<rparr>,
       subj_claims =
         \<lparr> claim_kycLevel = kyc_kycLevel kycData,
           claim_amlScreening = kyc_amlScreening kycData,
           claim_sanctionsCheck = kyc_sanctionsCheck kycData,
           claim_pepScreening = kyc_pepScreening kycData,
           claim_sourceOfFunds = kyc_sourceOfFunds kycData,
           claim_accreditedInvestor = kyc_accreditedInvestor kycData,
           claim_entityType = kyc_entityType kycData \<rparr>,
       subj_amountVerifiedFor =
         \<lparr> amt_value = kyc_verifiedAmount kycData,
           amt_currency = kyc_currency kycData \<rparr>,
       subj_tier = kyc_tier kycData,
       subj_jurisdictions = req_jurisdiction request \<rparr>"

text \<open>Steps 5 to 8: the object literal \<open>unsignedCredential\<close>.\<close>

definition unsignedCredentialOf ::
  "world \<Rightarrow> tick \<Rightarrow> IssueCredentialRequest \<Rightarrow> BankIssuer \<Rightarrow> CustomerKYCData \<Rightarrow>
   UnsignedCredential" where
  "unsignedCredentialOf w t request issuer kycData =
     (let subjectDid = subjectDidOf request kycData;
          credentialId = generateCredentialId w (tick_dateNow t) (iss_did issuer) subjectDid;
          issuanceDate = tick_newDate t;
          expiryDays = expiryDaysOf request;
          expirationDate = addDays issuanceDate expiryDays
      in \<lparr> vc_context = [''https://www.w3.org/2018/credentials/v1'',
                          ''https://did3.org/contexts/credentials/v1''],
            vc_id = credentialId,
            vc_type = [''VerifiableCredential'', ''KYCCredential''],
            vc_issuer =
              \<lparr> did_id = iss_did issuer,
                did_name = iss_name issuer,
                did_jurisdiction = Some (iss_jurisdiction issuer),
                did_regulators = Some (iss_regulators issuer),
                did_tier = Some (iss_tier issuer) \<rparr>,
            vc_issuanceDate = lib_toISOString w issuanceDate,
            vc_expirationDate = lib_toISOString w expirationDate,
            vc_credentialSubject = credentialSubjectOf w request kycData subjectDid,
            vc_decommissionedAt = None,
            vc_credentialStatus =
              \<lparr> status_id = generateStatusUrl credentialId,
                status_type = ''DID3RevocationRegistry'',
                status_registryContract = Some (''0x'' @ replicate 40 (CHR ''0'')),
                status_tokenId = Some (showNat (tick_random t)) \<rparr> \<rparr>)"

text \<open>Step 11: the object literal \<open>proof\<close>.\<close>

definition proofOf :: "world \<Rightarrow> tick \<Rightarrow> BankIssuer \<Rightarrow> string \<Rightarrow> string \<Rightarrow> Proof" where
  "proofOf w t issuer signatureAlgorithm proofValue =
     \<lparr> proof_type =
         (if signatureAlgorithm = ''Ed25519'' then ''Ed25519Signature2020''
          else ''EcdsaSecp256k1Signature2019''),
       proof_created = lib_toISOString w (tick_newDate t),
       proof_verificationMethod = iss_did issuer @ ''#key-1'',
       proof_proofPurpose = ''assertionMethod'',
       proof_proofValue = proofValue \<rparr>"

text \<open>Step 12: \<^verbatim>\<open>{ ...unsignedCredential, proof }\<close>.\<close>

definition withProof :: "UnsignedCredential \<Rightarrow> Proof \<Rightarrow> VerifiableCredential" where
  "withProof u p = UnsignedCredential.extend u (VerifiableCredential.fields p)"

definition issueCredential ::
  "world \<Rightarrow> tick \<Rightarrow> IssueCredentialRequest \<Rightarrow> error + VerifiableCredential" where
  "issueCredential w t request =
     (case getIssuerByDid w (req_issuerDid request) of
        None \<Rightarrow> Inl (UnknownIssuer (req_issuerDid request))
      | Some issuer \<Rightarrow>
          (case getCustomerKYC w (req_customerKycId request) of
             None \<Rightarrow> Inl (UnknownCustomer (req_customerKycId request))
           | Some kycData \<Rightarrow>
               (if kyc_amlScreening kycData \<noteq> ''passed'' \<or>
                   kyc_sanctionsCheck kycData \<noteq> ''passed'' \<or>
                   kyc_pepScreening kycData \<noteq> ''passed''
                then Inl ComplianceCheckFailed
                else if req_kycLevel request \<noteq> kyc_kycLevel kycData
                then Inl (LevelMismatch (req_kycLevel request) (kyc_kycLevel kycData))
                else if req_accreditedInvestor request \<noteq> kyc_accreditedInvestor kycData
                then Inl AccreditationMismatch
                else
                  (let unsignedCredential = unsignedCredentialOf w t request issuer kycData;
                       canonical = canonicalData unsignedCredential;
                       signatureAlgorithm = signatureAlgorithmOf request issuer
                   in (case signCredential w canonical (iss_privateKey issuer)
                              signatureAlgorithm of
                         Inl e \<Rightarrow> Inl e
                       | Inr proofValue \<Rightarrow>
                           Inr (withProof unsignedCredential
                                  (proofOf w t issuer signatureAlgorithm proofValue)))))))"

text \<open>
  \<open>now\<close> is the \<^verbatim>\<open>new Date()\<close> read by the function. A comparison with an invalid date
  (\<open>NaN\<close>) is false. The \<open>errors\<close> array is threaded through the checks; the \<open>catch\<close>
  clause appends to whatever was pushed before the error was thrown.
\<close>

definition expiredAt :: "world \<Rightarrow> int \<Rightarrow> 'a UnsignedCredential_scheme \<Rightarrow> bool" where
  "expiredAt w now credential =
     (case lib_parseDate w (vc_expirationDate credential) of
        None \<Rightarrow> False
      | Some expirationDate \<Rightarrow> now > expirationDate)"

definition verifyCredential :: "world \<Rightarrow> int \<Rightarrow> VerifiableCredential \<Rightarrow> VerificationResult" where
  "verifyCredential w now credential =
     (let errors0 = [];
          expired = expiredAt w now credential;
          errors1 = (if expired then errors0 @ [Expired] else errors0);
          errors2 =
            (if vc_decommissionedAt credential \<noteq> None then errors1 @ [Revoked] else errors1)
      in case getIssuerByDid w (did_id (vc_issuer credential)) of
           None \<Rightarrow> \<lparr> valid = False, errors = errors2 @ [IssuerNotFound] \<rparr>
         | Some issuer \<Rightarrow>
             (case verifySignature w (canonicalData credential)
                     (proof_proofValue (vc_proof credential))
                     (iss_publicKey issuer) (iss_signatureAlgorithm issuer) of
                Inl e \<Rightarrow>
                  \<lparr> valid = False, errors = errors2 @ [VerificationError (errorMessage e)] \<rparr>
              | Inr signatureValid \<Rightarrow>
                  let errors3 =
                        (if \<not> signatureValid then errors2 @ [InvalidSignature] else errors2)
                  in \<lparr> valid = (errors3 = [] \<and> signatureValid), errors = errors3 \<rparr>))"


text \<open>
  The \<open>for\<close> loop of \<open>batchIssueCredentials\<close> over the requests still to be processed,
  each paired with what its \<open>issueCredential\<close> call reads from the clock and the random
  generator; \<open>successful\<close> and \<open>failed\<close> are the two arrays being filled.
\<close>

fun batchLoop ::
  "world \<Rightarrow> (tick \<times> IssueCredentialRequest) list \<Rightarrow>
   VerifiableCredential list \<Rightarrow> (IssueCredentialRequest \<times> string) list \<Rightarrow>
   VerifiableCredential list \<times> (IssueCredentialRequest \<times> string) list" where
  "batchLoop w [] successful failed = (successful, failed)"
| "batchLoop w ((t, request) # rest) successful failed =
     (case issueCredential w t request of
        Inr credential \<Rightarrow> batchLoop w rest (successful @ [credential]) failed
      | Inl e \<Rightarrow> batchLoop w rest successful (failed @ [(request, errorMessage e)]))"

definition batchIssueCredentials ::
  "world \<Rightarrow> (tick \<times> IssueCredentialRequest) list \<Rightarrow>
   VerifiableCredential list \<times> (IssueCredentialRequest \<times> string) list" where
  "batchIssueCredentials w requests = batchLoop w requests [] []"

text \<open>
  What one request yields when it is issued on its own: the credential, or the request
  with the message of the error.
\<close>

definition issuedBy ::
  "world \<Rightarrow> tick \<times> IssueCredentialRequest \<Rightarrow> VerifiableCredential option" where
  "issuedBy w p = (case issueCredential w (fst p) (snd p) of Inr c \<Rightarrow> Some c | Inl e \<Rightarrow> None)"

definition refusedBy ::
  "world \<Rightarrow> tick \<times> IssueCredentialRequest \<Rightarrow> (IssueCredentialRequest \<times> string) option" where
  "refusedBy w p =
     (case issueCredential w (fst p) (snd p) of
        Inr c \<Rightarrow> None
      | Inl e \<Rightarrow> Some (snd p, errorMessage e))"

section \<open>What the canonical string contains\<close>

text \<open>
  The property list of \<open>canonicalData\<close> is the sorted list of the nine top-level keys.
  It is applied inside the nested objects too, so of \<open>issuer\<close> and \<open>credentialSubject\<close>
  only \<open>id\<close> is written, and of \<open>credentialStatus\<close> only \<open>id\<close> and \<open>type\<close>.
  \<open>signedText\<close> spells the resulting string out; \<open>canonicalData_signedText\<close> below
  proves that it is what \<open>canonicalData\<close> computes.
\<close>

abbreviation credentialKeys :: "string list" where
  "credentialKeys \<equiv>
     [''@context'', ''credentialStatus'', ''credentialSubject'', ''decommissionedAt'',
      ''expirationDate'', ''id'', ''issuanceDate'', ''issuer'', ''type'']"

definition signedText :: "'a UnsignedCredential_scheme \<Rightarrow> string" where
  "signedText c =
     ''{'' @ quoteJSONString ''@context'' @ '':'' @
        (''['' @ joinWith '','' (map quoteJSONString (vc_context c)) @ '']'') @ '','' @
     quoteJSONString ''credentialStatus'' @ '':'' @
        (''{'' @ quoteJSONString ''id'' @ '':'' @
                quoteJSONString (status_id (vc_credentialStatus c)) @ '','' @
                quoteJSONString ''type'' @ '':'' @
                quoteJSONString (status_type (vc_credentialStatus c)) @ ''}'') @ '','' @
     quoteJSONString ''credentialSubject'' @ '':'' @
        (''{'' @ quoteJSONString ''id'' @ '':'' @
                quoteJSONString (subj_id (vc_credentialSubject c)) @ ''}'') @ '','' @
     quoteJSONString ''decommissionedAt'' @ '':'' @
        (case vc_decommissionedAt c of None \<Rightarrow> ''null'' | Some s \<Rightarrow> quoteJSONString s) @ '','' @
     quoteJSONString ''expirationDate'' @ '':'' @ quoteJSONString (vc_expirationDate c) @ '','' @
     quoteJSONString ''id'' @ '':'' @ quoteJSONString (vc_id c) @ '','' @
     quoteJSONString ''issuanceDate'' @ '':'' @ quoteJSONString (vc_issuanceDate c) @ '','' @
     quoteJSONString ''issuer'' @ '':'' @
        (''{'' @ quoteJSONString ''id'' @ '':'' @
                quoteJSONString (did_id (vc_issuer c)) @ ''}'') @ '','' @
     quoteJSONString ''type'' @ '':'' @
        (''['' @ joinWith '','' (map quoteJSONString (vc_type c)) @ '']'') @ ''}''"

section \<open>Assumptions on the signature libraries\<close>

text \<open>
  The issuer's key pair belongs to its declared algorithm: whatever the library signs
  with the private key, it accepts under the public key.
\<close>

definition validKeyPair :: "world \<Rightarrow> BankIssuer \<Rightarrow> bool" where
  "validKeyPair w issuer \<longleftrightarrow>
     (iss_signatureAlgorithm issuer = ''Ed25519'' \<longrightarrow>
        (\<forall>msg sig. lib_ed25519_sign w msg (hexDecode (iss_privateKey issuer)) = Inr sig \<longrightarrow>
           lib_ed25519_verify w sig msg (hexDecode (iss_publicKey issuer)) = Some True)) \<and>
     (iss_signatureAlgorithm issuer = ''secp256k1'' \<longrightarrow>
        (\<forall>hash sig. lib_secp256k1_sign w hash (hexDecode (iss_privateKey issuer)) = Inr sig \<longrightarrow>
           lib_secp256k1_verify w sig hash (hexDecode (iss_publicKey issuer)) = Some True))"


section \<open>A concrete environment\<close>

text \<open>Two of the issuers of \<open>config/bank-issuers.ts\<close> and two customers of the mock database.\<close>

definition JPMORGAN_ISSUER :: BankIssuer where
  "JPMORGAN_ISSUER =
     \<lparr> iss_did = ''did:did3:bank:jpmorgan'',
       iss_name = ''JPMorgan Chase Bank, N.A.'',
       iss_jurisdiction = [''US''],
       iss_regulators = [''OCC'', ''FINRA'', ''SEC'', ''Federal Reserve''],
       iss_tier = 5,
       iss_privateKey = ''54186ec52d7261b0f6b484e4692a7de73f5a6332ce1e6b9964e053824a783994'',
       iss_publicKey = ''cd55868eb107b66bf1d0055387fabdc7a632688037a38103e42e98da293255cf'',
       iss_signatureAlgorithm = ''Ed25519'' \<rparr>"

definition GOLDMAN_SACHS_ISSUER :: BankIssuer where
  "GOLDMAN_SACHS_ISSUER =
     \<lparr> iss_did = ''did:did3:bank:goldmansachs'',
       iss_name = ''Goldman Sachs Bank USA'',
       iss_jurisdiction = [''US''],
       iss_regulators = [''OCC'', ''SEC'', ''FINRA''],
       iss_tier = 5,
       iss_privateKey = ''8009afda5d258a17b4eff2c107540d2eeb546e2edc74a1f8ebab9470f5cfc36d'',
       iss_publicKey = ''025c0424a9ef3787a4ef008353314c3788ff951ae09645487fc640df733d7da72e'',
       iss_signatureAlgorithm = ''secp256k1'' \<rparr>"

definition ISSUER_REGISTRY :: "string \<Rightarrow> BankIssuer option" where
  "ISSUER_REGISTRY =
     map_of [(''did:did3:bank:jpmorgan'', JPMORGAN_ISSUER),
             (''did:did3:bank:goldmansachs'', GOLDMAN_SACHS_ISSUER)]"

definition customerAlice :: CustomerKYCData where
  "customerAlice =
     \<lparr> kyc_kycId = ''KYC-001'',
       kyc_name = ''Alice Johnson'',
       kyc_dateOfBirth = ''1985-03-15'',
       kyc_citizenship = ''US'',
       kyc_address = ''123 Wall Street, New York, NY 10005'',
       kyc_kycLevel = ''enhanced'',
       kyc_amlScreening = ''passed'',
       kyc_sanctionsCheck = ''passed'',
       kyc_pepScreening = ''passed'',
       kyc_sourceOfFunds = ''verified'',
       kyc_accreditedInvestor = True,
       kyc_entityType = ''individual'',
       kyc_verifiedAmount = 5000000,
       kyc_currency = ''USD'',
       kyc_tier = 2,
       kyc_jurisdictions = [''US''],
       kyc_userDid = Some ''did:did3:user:0x742d35Cc6634C0532925a3b844Bc9e7595f0bEb'' \<rparr>"

definition customerBob :: CustomerKYCData where
  "customerBob =
     \<lparr> kyc_kycId = ''KYC-002'',
       kyc_name = ''Bob Smith'',
       kyc_dateOfBirth = ''1990-07-22'',
       kyc_citizenship = ''US'',
       kyc_address = ''456 Market Street, San Francisco, CA 94102'',
       kyc_kycLevel = ''basic'',
       kyc_amlScreening = ''passed'',
       kyc_sanctionsCheck = ''passed'',
       kyc_pepScreening = ''passed'',
       kyc_sourceOfFunds = ''verified'',
       kyc_accreditedInvestor = False,
       kyc_entityType = ''individual'',
       kyc_verifiedAmount = 100000,
       kyc_currency = ''USD'',
       kyc_tier = 3,
       kyc_jurisdictions = [''US''],
       kyc_userDid = Some ''did:did3:user:0x8f3e4d5c6b7a8901234567890abcdef12345678'' \<rparr>"

text \<open>
  Two records such as \<open>upsertCustomerKYC\<close> can store: Bob with a failed sanctions check,
  and Bob with a failed AML screening.
\<close>

definition customerSanctioned :: CustomerKYCData where
  "customerSanctioned = customerBob\<lparr> kyc_kycId := ''KYC-900'', kyc_sanctionsCheck := ''failed'' \<rparr>"

definition customerAmlFailed :: CustomerKYCData where
  "customerAmlFailed = customerBob\<lparr> kyc_kycId := ''KYC-901'', kyc_amlScreening := ''failed'' \<rparr>"

definition kycDatabase :: "string \<Rightarrow> CustomerKYCData option" where
  "kycDatabase =
     map_of [(''KYC-001'', customerAlice), (''KYC-002'', customerBob),
             (''KYC-900'', customerSanctioned), (''KYC-901'', customerAmlFailed)]"

text \<open>
  Idealised libraries, to run the service on concrete inputs: the digest is the
  hexadecimal form of the data itself (so it has no collisions), an Ed25519 signature of
  a message is the message, a secp256k1 signature of a digest is the digest behind the
  marker \<open>5e\<close>, and a date is written as its decimal time value.
\<close>

definition bytesOfString :: "string \<Rightarrow> byte list" where
  "bytesOfString s = map (\<lambda>c. word_of_nat (of_char c)) s"

definition parseDigits :: "string \<Rightarrow> nat option" where
  "parseDigits s =
     (if s = [] \<or> \<not> list_all (\<lambda>c. 48 \<le> (of_char c :: nat) \<and> (of_char c :: nat) \<le> 57) s
      then None
      else Some (foldl (\<lambda>a c. 10 * a + (of_char c - 48)) 0 s))"

definition parseDecimal :: "string \<Rightarrow> int option" where
  "parseDecimal s =
     (case s of
        [] \<Rightarrow> None
      | c # r \<Rightarrow>
          (if c = CHR ''-'' then map_option (\<lambda>n. - int n) (parseDigits r)
           else map_option int (parseDigits s)))"

definition idealWorld :: world where
  "idealWorld =
     \<lparr> lib_sha256Hex = (\<lambda>data. hexEncode (bytesOfString data)),
       lib_ed25519_sign = (\<lambda>msg key. Inr msg),
       lib_ed25519_verify = (\<lambda>sig msg pub. Some (sig = msg)),
       lib_secp256k1_sign = (\<lambda>hash key. Inr (''5e'' @ hash)),
       lib_secp256k1_verify = (\<lambda>sigHex hash pub. Some (sigHex = ''5e'' @ hash)),
       lib_toISOString = showInt,
       lib_parseDate = parseDecimal,
       store_issuers = ISSUER_REGISTRY,
       store_customers = kycDatabase \<rparr>"

definition demoTick :: tick where
  "demoTick = \<lparr> tick_dateNow = 1700000000000, tick_newDate = 1700000000000, tick_random = 12345 \<rparr>"

definition aliceRequest :: IssueCredentialRequest where
  "aliceRequest =
     \<lparr> req_customerKycId = ''KYC-001'',
       req_issuerDid = ''did:did3:bank:jpmorgan'',
       req_kycLevel = ''enhanced'',
       req_accreditedInvestor = True,
       req_jurisdiction = [''US''],
       req_expiryDays = Some 365,
       req_signatureAlgorithm = Some ''Ed25519'' \<rparr>"

definition bobRequest :: IssueCredentialRequest where
  "bobRequest =
     \<lparr> req_customerKycId = ''KYC-002'',
       req_issuerDid = ''did:did3:bank:jpmorgan'',
       req_kycLevel = ''basic'',
       req_accreditedInvestor = False,
       req_jurisdiction = [''US''],
       req_expiryDays = Some 180,
       req_signatureAlgorithm = None \<rparr>"

text \<open>What \<open>issueCredential\<close> returns for these requests.\<close>

definition aliceCredential :: VerifiableCredential where
  "aliceCredential = projr (issueCredential idealWorld demoTick aliceRequest)"

definition bobCredential :: VerifiableCredential where
  "bobCredential = projr (issueCredential idealWorld demoTick bobRequest)"



definition sanctionedRequest :: IssueCredentialRequest where
  "sanctionedRequest = bobRequest\<lparr> req_customerKycId := ''KYC-900'' \<rparr>"

definition amlFailedRequest :: IssueCredentialRequest where
  "amlFailedRequest = bobRequest\<lparr> req_customerKycId := ''KYC-901'' \<rparr>"

definition unknownCustomerRequest :: IssueCredentialRequest where
  "unknownCustomerRequest = bobRequest\<lparr> req_customerKycId := ''KYC-404'' \<rparr>"

definition unknownIssuerRequest :: IssueCredentialRequest where
  "unknownIssuerRequest = bobRequest\<lparr> req_issuerDid := ''did:did3:bank:nobody'' \<rparr>"



text \<open>Bob's credential with the tier changed from 3 to 2 after issuance.\<close>

definition tamperedCredential :: VerifiableCredential where
  "tamperedCredential =
     bobCredential\<lparr> vc_credentialSubject := (vc_credentialSubject bobCredential)\<lparr> subj_tier := 2 \<rparr> \<rparr>"

text \<open>Bob's credential, revoked, with the issuer replaced by one that is not registered.\<close>

definition strayCredential :: VerifiableCredential where
  "strayCredential =
     bobCredential\<lparr> vc_issuer := (vc_issuer bobCredential)\<lparr> did_id := ''did:did3:bank:nobody'' \<rparr>,
                    vc_decommissionedAt := Some ''1700000000500'' \<rparr>"

section \<open>Canonicalisation does not depend on insertion order\<close>

lemma map_of_rendered:
  "map_of (map (\<lambda>kv. (fst kv, f (snd kv))) kvs) P = map_option f (map_of kvs P)"
  by (induction kvs) auto

lemma samePayload_serialize:
  "samePayload x y \<Longrightarrow> serializeJSON K x = serializeJSON K y"
proof (induction x y rule: samePayload.induct)
  case (1 a y)
  then obtain b where y: "y = JObj b" by (cases y) auto
  from 1(2) y have keys: "set (map fst a) = set (map fst b)"
    and all: "list_all (\<lambda>kv. case map_of b (fst kv) of None \<Rightarrow> False
                 | Some v' \<Rightarrow> samePayload (snd kv) v') a"
    by auto
  have "map_option (serializeJSON K) (map_of a P) = map_option (serializeJSON K) (map_of b P)"
    for P
  proof (cases "map_of a P")
    case None
    then have "P \<notin> set (map fst b)" using keys by (simp add: map_of_eq_None_iff)
    then have "map_of b P = None" by (simp add: map_of_eq_None_iff)
    with None show ?thesis by simp
  next
    case (Some v)
    then have mem: "(P, v) \<in> set a" by (rule map_of_SomeD)
    with all obtain v' where b: "map_of b P = Some v'" and sp: "samePayload v v'"
      by (auto simp: list_all_iff split: option.splits)
    from 1(1)[OF y mem] b sp have "serializeJSON K v = serializeJSON K v'" by simp
    with Some b show ?thesis by simp
  qed
  then show ?case using y by (simp add: map_of_rendered)
next
  case (2 xs y)
  then obtain ys where y: "y = JArr ys" by (cases y) auto
  from 2(2) y have len: "length xs = length ys"
    and all: "list_all (\<lambda>p. samePayload (fst p) (snd p)) (zip xs ys)" by auto
  have "map (serializeJSON K) xs = map (serializeJSON K) ys"
  proof (rule nth_equalityI)
    show "length (map (serializeJSON K) xs) = length (map (serializeJSON K) ys)"
      using len by simp
  next
    fix i assume "i < length (map (serializeJSON K) xs)"
    then have i: "i < length xs" by simp
    then have z: "(xs ! i, ys ! i) \<in> set (zip xs ys)" using len by (auto simp: set_zip)
    with all have "samePayload (xs ! i) (ys ! i)" by (auto simp: list_all_iff)
    with 2(1)[OF y z] have "serializeJSON K (xs ! i) = serializeJSON K (ys ! i)" by simp
    then show "map (serializeJSON K) xs ! i = map (serializeJSON K) ys ! i"
      using i len by simp
  qed
  then show ?case using y by simp
qed auto

lemma sort_keys_eq:
  fixes xs ys :: "string list"
  assumes "distinct xs" "distinct ys" "set xs = set ys"
  shows "sort xs = sort ys"
  using assms by (metis distinct_sort sorted_distinct_set_unique set_sort sorted_sort)

lemma sorted_credential_keys:
  "sort [''@context'', ''id'', ''type'', ''issuer'', ''issuanceDate'', ''expirationDate'',
         ''credentialSubject'', ''decommissionedAt'', ''credentialStatus'']
   = credentialKeys"
  by code_simp

lemma credentialMembers_keys:
  "sort (map fst (credentialMembers c)) = credentialKeys"
  using sorted_credential_keys by (simp add: credentialMembers_def del: sort_key_simps)

section \<open>The canonical string, spelled out\<close>

lemma serialize_issuerObject:
  "serializeJSON credentialKeys (issuerObject d)
   = ''{'' @ quoteJSONString ''id'' @ '':'' @ quoteJSONString (did_id d) @ ''}''"
  by (cases "did_jurisdiction d"; cases "did_regulators d"; cases "did_tier d")
     (simp_all add: issuerObject_def optionalMember_def List.map_filter_def)

lemma serialize_statusObject:
  "serializeJSON credentialKeys (statusObject s)
   = ''{'' @ quoteJSONString ''id'' @ '':'' @ quoteJSONString (status_id s) @ '','' @
            quoteJSONString ''type'' @ '':'' @ quoteJSONString (status_type s) @ ''}''"
  by (cases "status_registryContract s"; cases "status_tokenId s")
     (simp_all add: statusObject_def optionalMember_def List.map_filter_def)

lemma serialize_subjectObject:
  "serializeJSON credentialKeys (subjectObject s)
   = ''{'' @ quoteJSONString ''id'' @ '':'' @ quoteJSONString (subj_id s) @ ''}''"
  by (simp add: subjectObject_def List.map_filter_def)

lemma serialize_stringArray:
  "serializeJSON K (stringArray xs) = ''['' @ joinWith '','' (map quoteJSONString xs) @ '']''"
  by (simp add: stringArray_def comp_def)

lemma canonicalData_signedText: "canonicalData c = signedText c"
  unfolding canonicalData_def canonicalize_def credentialMembers_keys
  unfolding credentialMembers_def signedText_def
  by (cases "vc_decommissionedAt c")
     (simp_all add: List.map_filter_def serialize_issuerObject serialize_statusObject
        serialize_subjectObject serialize_stringArray)

section \<open>Hexadecimal round trip\<close>

lemma hexValue_hexDigit: "n < 16 \<Longrightarrow> hexValue (hexDigit n) = Some n"
proof -
  assume "n < 16"
  then have "n \<in> {0, 1, 2, 3, 4, 5, 6, 7, 8, 9, 10, 11, 12, 13, 14, 15}" by simp arith
  then show ?thesis
    by (auto simp: hexValue_def hexDigit_def)
qed

lemma hexDecode_hexEncode_append:
  "hexDecode (hexEncode bs @ rest) = bs @ hexDecode rest"
proof (induction bs)
  case Nil
  then show ?case by (simp add: hexEncode_def)
next
  case (Cons b bs)
  have hi: "unat b div 16 < 16"
    using unsigned_less[of b, where 'a = nat] by simp
  have lo: "unat b mod 16 < 16" by simp
  have "hexEncode (b # bs) @ rest
        = hexDigit (unat b div 16) # hexDigit (unat b mod 16) # (hexEncode bs @ rest)"
    by (simp add: hexEncode_def)
  then show ?case
    using Cons.IH
    by (simp add: hexValue_hexDigit[OF hi] hexValue_hexDigit[OF lo]
          del: of_nat_add of_nat_mult)
qed

lemma hexDecode_hexEncode: "hexDecode (hexEncode bs) = bs"
  using hexDecode_hexEncode_append[of bs "[]"] by simp


section \<open>Issuance and verification\<close>

lemma withProof_simps [simp]:
  "vc_context (withProof u p) = vc_context u"
  "vc_id (withProof u p) = vc_id u"
  "vc_type (withProof u p) = vc_type u"
  "vc_issuer (withProof u p) = vc_issuer u"
  "vc_issuanceDate (withProof u p) = vc_issuanceDate u"
  "vc_expirationDate (withProof u p) = vc_expirationDate u"
  "vc_credentialSubject (withProof u p) = vc_credentialSubject u"
  "vc_decommissionedAt (withProof u p) = vc_decommissionedAt u"
  "vc_credentialStatus (withProof u p) = vc_credentialStatus u"
  "vc_proof (withProof u p) = p"
  by (simp_all add: withProof_def UnsignedCredential.defs VerifiableCredential.defs)

lemma canonicalData_withProof [simp]: "canonicalData (withProof u p) = canonicalData u"
  by (simp add: canonicalData_def credentialMembers_def)

lemma issueCredential_success:
  assumes "getIssuerByDid w (req_issuerDid request) = Some issuer"
    and "getCustomerKYC w (req_customerKycId request) = Some kycData"
    and "kyc_amlScreening kycData = ''passed''"
    and "kyc_sanctionsCheck kycData = ''passed''"
    and "kyc_pepScreening kycData = ''passed''"
    and "req_kycLevel request = kyc_kycLevel kycData"
    and "req_accreditedInvestor request = kyc_accreditedInvestor kycData"
    and "signCredential w (canonicalData (unsignedCredentialOf w t request issuer kycData))
           (iss_privateKey issuer) (signatureAlgorithmOf request issuer) = Inr proofValue"
  shows "issueCredential w t request =
           Inr (withProof (unsignedCredentialOf w t request issuer kycData)
                  (proofOf w t issuer (signatureAlgorithmOf request issuer) proofValue))"
  using assms by (simp add: issueCredential_def Let_def)

lemma issueCredential_InrD:
  assumes "issueCredential w t request = Inr c"
  obtains issuer kycData proofValue where
    "getIssuerByDid w (req_issuerDid request) = Some issuer"
    "getCustomerKYC w (req_customerKycId request) = Some kycData"
    "kyc_amlScreening kycData = ''passed''"
    "kyc_sanctionsCheck kycData = ''passed''"
    "kyc_pepScreening kycData = ''passed''"
    "req_kycLevel request = kyc_kycLevel kycData"
    "req_accreditedInvestor request = kyc_accreditedInvestor kycData"
    "signCredential w (canonicalData (unsignedCredentialOf w t request issuer kycData))
           (iss_privateKey issuer) (signatureAlgorithmOf request issuer) = Inr proofValue"
    "c = withProof (unsignedCredentialOf w t request issuer kycData)
                  (proofOf w t issuer (signatureAlgorithmOf request issuer) proofValue)"
  using assms
  by (auto simp: issueCredential_def Let_def split: option.splits if_splits sum.splits)

lemma unsignedCredentialOf_simps [simp]:
  "vc_decommissionedAt (unsignedCredentialOf w t request issuer kycData) = None"
  "did_id (vc_issuer (unsignedCredentialOf w t request issuer kycData)) = iss_did issuer"
  "vc_issuanceDate (unsignedCredentialOf w t request issuer kycData)
     = lib_toISOString w (tick_newDate t)"
  "vc_expirationDate (unsignedCredentialOf w t request issuer kycData)
     = lib_toISOString w (addDays (tick_newDate t) (expiryDaysOf request))"
  by (simp_all add: unsignedCredentialOf_def Let_def)

lemma sign_then_verify:
  assumes pair: "validKeyPair w issuer"
    and sign: "signCredential w d (iss_privateKey issuer) (iss_signatureAlgorithm issuer) = Inr s"
  shows "verifySignature w d s (iss_publicKey issuer) (iss_signatureAlgorithm issuer) = Inr True"
proof -
  consider (ed) "iss_signatureAlgorithm issuer = ''Ed25519''"
    | (secp) "iss_signatureAlgorithm issuer = ''secp256k1''"
    using sign by (auto simp: signCredential_def split: if_splits)
  then show ?thesis
  proof cases
    case ed
    with sign obtain sg where
      lib: "lib_ed25519_sign w (hexDecode (sha256Hash w d)) (hexDecode (iss_privateKey issuer)) = Inr sg"
      and s: "s = CHR ''z'' # hexEncode sg"
      by (auto simp: signCredential_def signWithEd25519_def Let_def split: sum.splits)
    from pair ed lib have
      "lib_ed25519_verify w sg (hexDecode (sha256Hash w d)) (hexDecode (iss_publicKey issuer)) = Some True"
      by (simp add: validKeyPair_def)
    then show ?thesis
      using ed s by (simp add: verifySignature_def verifyEd25519_def hexDecode_hexEncode)
  next
    case secp
    with sign obtain sg where
      lib: "lib_secp256k1_sign w (sha256Hash w d) (hexDecode (iss_privateKey issuer)) = Inr sg"
      and s: "s = CHR ''z'' # sg"
      by (auto simp: signCredential_def signWithSecp256k1_def Let_def split: sum.splits)
    from pair secp lib have
      "lib_secp256k1_verify w sg (sha256Hash w d) (hexDecode (iss_publicKey issuer)) = Some True"
      by (simp add: validKeyPair_def)
    then show ?thesis
      using secp s by (simp add: verifySignature_def verifySecp256k1_def)
  qed
qed

lemma verifyCredential_all_good:
  assumes "getIssuerByDid w (did_id (vc_issuer c)) = Some issuer"
    and "verifySignature w (canonicalData c) (proof_proofValue (vc_proof c))
           (iss_publicKey issuer) (iss_signatureAlgorithm issuer) = Inr True"
    and "vc_decommissionedAt c = None"
    and "lib_parseDate w (vc_expirationDate c) = Some e"
    and "now \<le> e"
  shows "verifyCredential w now c = \<lparr> valid = True, errors = [] \<rparr>"
  using assms by (simp add: verifyCredential_def expiredAt_def Let_def)

lemma roundtrip:
  assumes issue: "issueCredential w t request = Inr c"
    and issuer: "getIssuerByDid w (req_issuerDid request) = Some issuer"
    and did: "iss_did issuer = req_issuerDid request"
    and alg: "signatureAlgorithmOf request issuer = iss_signatureAlgorithm issuer"
    and pair: "validKeyPair w issuer"
    and parse: "lib_parseDate w (lib_toISOString w (addDays (tick_newDate t) (expiryDaysOf request)))
                  = Some (addDays (tick_newDate t) (expiryDaysOf request))"
    and now: "now \<le> addDays (tick_newDate t) (expiryDaysOf request)"
  shows "verifyCredential w now c = \<lparr> valid = True, errors = [] \<rparr>"
proof -
  from issue issuer obtain kycData proofValue where
    sign: "signCredential w (canonicalData (unsignedCredentialOf w t request issuer kycData))
           (iss_privateKey issuer) (signatureAlgorithmOf request issuer) = Inr proofValue"
    and c: "c = withProof (unsignedCredentialOf w t request issuer kycData)
                  (proofOf w t issuer (signatureAlgorithmOf request issuer) proofValue)"
    by (auto elim!: issueCredential_InrD)
  have "verifySignature w (canonicalData c) (proof_proofValue (vc_proof c))
           (iss_publicKey issuer) (iss_signatureAlgorithm issuer) = Inr True"
    using sign_then_verify[OF pair] sign alg c by (simp add: proofOf_def)
  then show ?thesis
    using c did issuer parse now by (intro verifyCredential_all_good) simp_all
qed

section \<open>Facts about the concrete environment\<close>

lemma idealWorld_simps [simp]:
  "lib_sha256Hex idealWorld = (\<lambda>data. hexEncode (bytesOfString data))"
  "lib_ed25519_sign idealWorld = (\<lambda>msg key. Inr msg)"
  "lib_ed25519_verify idealWorld = (\<lambda>sig msg pub. Some (sig = msg))"
  "lib_secp256k1_sign idealWorld = (\<lambda>hash key. Inr (''5e'' @ hash))"
  "lib_secp256k1_verify idealWorld = (\<lambda>sigHex hash pub. Some (sigHex = ''5e'' @ hash))"
  "lib_toISOString idealWorld = showInt"
  "lib_parseDate idealWorld = parseDecimal"
  "store_issuers idealWorld = ISSUER_REGISTRY"
  "store_customers idealWorld = kycDatabase"
  by (simp_all add: idealWorld_def)

lemma idealWorld_validKeyPair: "validKeyPair idealWorld issuer"
  by (simp add: validKeyPair_def)




lemma idealWorld_signCredential:
  "signCredential idealWorld d k ''Ed25519'' = Inr (CHR ''z'' # hexEncode (bytesOfString d))"
  "signCredential idealWorld d k ''secp256k1''
     = Inr (CHR ''z'' # ''5e'' @ hexEncode (bytesOfString d))"
  by (simp_all add: signCredential_def signWithEd25519_def signWithSecp256k1_def sha256Hash_def
        hexDecode_hexEncode)

lemma idealWorld_lookups [simp]:
  "getIssuerByDid idealWorld ''did:did3:bank:jpmorgan'' = Some JPMORGAN_ISSUER"
  "getIssuerByDid idealWorld ''did:did3:bank:nobody'' = None"
  "getCustomerKYC idealWorld ''KYC-001'' = Some customerAlice"
  "getCustomerKYC idealWorld ''KYC-002'' = Some customerBob"
  "getCustomerKYC idealWorld ''KYC-900'' = Some customerSanctioned"
  "getCustomerKYC idealWorld ''KYC-901'' = Some customerAmlFailed"
  "getCustomerKYC idealWorld ''KYC-404'' = None"
  by (simp_all add: getIssuerByDid_def getCustomerKYC_def ISSUER_REGISTRY_def kycDatabase_def)

lemma jpmorgan_simps [simp]:
  "iss_did JPMORGAN_ISSUER = ''did:did3:bank:jpmorgan''"
  "iss_signatureAlgorithm JPMORGAN_ISSUER = ''Ed25519''"
  by (simp_all add: JPMORGAN_ISSUER_def)

lemma demo_dates:
  "showInt 1700000000000 = ''1700000000000''"
  "showInt 1715552000000 = ''1715552000000''"
  "showInt 1731536000000 = ''1731536000000''"
  "parseDecimal ''1700000000000'' = Some 1700000000000"
  "parseDecimal ''1715552000000'' = Some 1715552000000"
  "parseDecimal ''1731536000000'' = Some 1731536000000"
  by (simp_all add: showInt_def hexDigit_def parseDecimal_def parseDigits_def)

lemma issue_alice: "issueCredential idealWorld demoTick aliceRequest = Inr aliceCredential"
proof -
  have "\<exists>c. issueCredential idealWorld demoTick aliceRequest = Inr c"
    by (rule exI,
        rule issueCredential_success[where issuer = JPMORGAN_ISSUER and kycData = customerAlice])
       (simp_all add: aliceRequest_def customerAlice_def signatureAlgorithmOf_def
          idealWorld_signCredential)
  then show ?thesis by (auto simp: aliceCredential_def)
qed

lemma issue_bob: "issueCredential idealWorld demoTick bobRequest = Inr bobCredential"
proof -
  have "\<exists>c. issueCredential idealWorld demoTick bobRequest = Inr c"
    by (rule exI,
        rule issueCredential_success[where issuer = JPMORGAN_ISSUER and kycData = customerBob])
       (simp_all add: bobRequest_def customerBob_def signatureAlgorithmOf_def
          idealWorld_signCredential)
  then show ?thesis by (auto simp: bobCredential_def)
qed



lemma verify_bob:
  "verifyCredential idealWorld 1700000000000 bobCredential = \<lparr> valid = True, errors = [] \<rparr>"
  by (rule roundtrip[OF issue_bob, where issuer = JPMORGAN_ISSUER])
     (simp_all add: bobRequest_def signatureAlgorithmOf_def expiryDaysOf_def
          idealWorld_validKeyPair demoTick_def addDays_def demo_dates)

lemma verifyCredential_cong:
  assumes "canonicalData c' = canonicalData c"
    and "vc_expirationDate c' = vc_expirationDate c"
    and "vc_decommissionedAt c' = vc_decommissionedAt c"
    and "did_id (vc_issuer c') = did_id (vc_issuer c)"
    and "proof_proofValue (vc_proof c') = proof_proofValue (vc_proof c)"
  shows "verifyCredential w now c' = verifyCredential w now c"
  unfolding verifyCredential_def expiredAt_def assms ..

lemma tamper_unsigned_fields:
  "verifyCredential w now
     (c\<lparr> vc_credentialSubject :=
           (vc_credentialSubject c)\<lparr> subj_hashedPII := h, subj_claims := cl,
              subj_amountVerifiedFor := a, subj_tier := n, subj_jurisdictions := js \<rparr> \<rparr>)
   = verifyCredential w now c"
  by (rule verifyCredential_cong) (simp_all add: canonicalData_signedText signedText_def)

lemma issued_subject:
  assumes "issueCredential w t request = Inr c"
    and "getCustomerKYC w (req_customerKycId request) = Some kycData"
  shows "vc_credentialSubject c
         = credentialSubjectOf w request kycData (subjectDidOf request kycData)"
  using assms
  by (auto elim!: issueCredential_InrD simp: unsignedCredentialOf_def Let_def)

lemma bob_tier: "subj_tier (vc_credentialSubject bobCredential) = 3"
  using issued_subject[OF issue_bob, of customerBob]
  by (simp add: bobRequest_def credentialSubjectOf_def customerBob_def)

lemma issued_fields:
  assumes "issueCredential w t request = Inr c"
    and "getIssuerByDid w (req_issuerDid request) = Some issuer"
  shows "vc_issuanceDate c = lib_toISOString w (tick_newDate t)"
    and "vc_expirationDate c = lib_toISOString w (addDays (tick_newDate t) (expiryDaysOf request))"
    and "vc_decommissionedAt c = None"
    and "did_id (vc_issuer c) = iss_did issuer"
  using assms by (auto elim!: issueCredential_InrD)

lemma verifyCredential_unknown_issuer:
  assumes "getIssuerByDid w (did_id (vc_issuer c)) = None"
  shows "verifyCredential w now c =
           \<lparr> valid = False,
             errors = (if expiredAt w now c then [Expired] else []) @
                      (if vc_decommissionedAt c \<noteq> None then [Revoked] else []) @
                      [IssuerNotFound] \<rparr>"
  using assms by (simp add: verifyCredential_def Let_def)

lemma verifyCredential_known_issuer:
  assumes "getIssuerByDid w (did_id (vc_issuer c)) = Some issuer"
    and "verifySignature w (canonicalData c) (proof_proofValue (vc_proof c))
           (iss_publicKey issuer) (iss_signatureAlgorithm issuer) = Inr ok"
  shows "verifyCredential w now c =
           \<lparr> valid = (\<not> expiredAt w now c \<and> vc_decommissionedAt c = None \<and> ok),
             errors = (if expiredAt w now c then [Expired] else []) @
                      (if vc_decommissionedAt c \<noteq> None then [Revoked] else []) @
                      (if ok then [] else [InvalidSignature]) \<rparr>"
  using assms by (auto simp: verifyCredential_def Let_def)

lemma verifySignature_supported:
  "algorithm = ''Ed25519'' \<or> algorithm = ''secp256k1'' \<Longrightarrow>
   \<exists>ok. verifySignature w d s pk algorithm = Inr ok"
  by (auto simp: verifySignature_def)

lemma verifySignature_unsupported:
  "algorithm \<noteq> ''Ed25519'' \<Longrightarrow> algorithm \<noteq> ''secp256k1'' \<Longrightarrow>
   verifySignature w d s pk algorithm = Inl (UnsupportedAlgorithm algorithm)"
  by (simp add: verifySignature_def)

lemma bob_fields:
  "vc_expirationDate bobCredential = ''1715552000000''"
  "vc_decommissionedAt bobCredential = None"
  "did_id (vc_issuer bobCredential) = ''did:did3:bank:jpmorgan''"
  using issued_fields[OF issue_bob, of JPMORGAN_ISSUER]
  by (simp_all add: bobRequest_def expiryDaysOf_def addDays_def demoTick_def demo_dates)

lemma stray_fields:
  "vc_expirationDate strayCredential = ''1715552000000''"
  "vc_decommissionedAt strayCredential = Some ''1700000000500''"
  "did_id (vc_issuer strayCredential) = ''did:did3:bank:nobody''"
  by (simp_all add: strayCredential_def bob_fields)

lemma failed_customers [simp]:
  "kyc_sanctionsCheck customerSanctioned = ''failed''"
  "kyc_amlScreening customerAmlFailed = ''failed''"
  "kyc_amlScreening customerSanctioned = ''passed''"
  "kyc_sanctionsCheck customerAmlFailed = ''passed''"
  by (simp_all add: customerSanctioned_def customerAmlFailed_def customerBob_def)

lemma request_simps [simp]:
  "req_issuerDid sanctionedRequest = ''did:did3:bank:jpmorgan''"
  "req_customerKycId sanctionedRequest = ''KYC-900''"
  "req_issuerDid amlFailedRequest = ''did:did3:bank:jpmorgan''"
  "req_customerKycId amlFailedRequest = ''KYC-901''"
  "req_issuerDid unknownCustomerRequest = ''did:did3:bank:jpmorgan''"
  "req_customerKycId unknownCustomerRequest = ''KYC-404''"
  "req_issuerDid unknownIssuerRequest = ''did:did3:bank:nobody''"
  by (simp_all add: sanctionedRequest_def amlFailedRequest_def unknownCustomerRequest_def
        unknownIssuerRequest_def bobRequest_def)

lemma bob_signature:
  "verifySignature idealWorld (canonicalData bobCredential)
     (proof_proofValue (vc_proof bobCredential))
     (iss_publicKey JPMORGAN_ISSUER) ''Ed25519'' = Inr True"
  using verify_bob
  by (auto simp: verifyCredential_def bob_fields Let_def split: sum.splits if_splits)

section \<open>The batch loop\<close>

lemma batchLoop_spec:
  "batchLoop w requests successful failed =
     (successful @ List.map_filter (issuedBy w) requests,
      failed @ List.map_filter (refusedBy w) requests)"
proof (induction requests arbitrary: successful failed)
  case Nil
  then show ?case by (simp add: List.map_filter_simps)
next
  case (Cons p requests)
  obtain t request where p: "p = (t, request)" by (cases p)
  show ?case
    by (cases "issueCredential w t request")
       (simp_all add: p Cons.IH List.map_filter_simps issuedBy_def refusedBy_def)
qed

lemma outcome_exclusive:
  "(issuedBy w p = None) \<noteq> (refusedBy w p = None)"
  by (simp add: issuedBy_def refusedBy_def split: sum.splits)

lemma map_filter_lengths:
  "length (List.map_filter (issuedBy w) requests) + length (List.map_filter (refusedBy w) requests)
   = length requests"
proof (induction requests)
  case Nil
  then show ?case by (simp add: List.map_filter_simps)
next
  case (Cons p requests)
  then show ?case
    using outcome_exclusive[of w p]
    by (cases "issuedBy w p"; cases "refusedBy w p") (simp_all add: List.map_filter_simps)
qed

lemma map_filter_append:
  "List.map_filter f (xs @ ys) = List.map_filter f xs @ List.map_filter f ys"
  by (simp add: List.map_filter_def)

section \<open>Signature strings\<close>

lemma issued_proofValue:
  assumes "issueCredential w t request = Inr c"
    and "getIssuerByDid w (req_issuerDid request) = Some issuer"
  shows "signCredential w (canonicalData c) (iss_privateKey issuer)
           (signatureAlgorithmOf request issuer) = Inr (proof_proofValue (vc_proof c))"
  using assms by (auto elim!: issueCredential_InrD simp: proofOf_def)

lemma verifyEd25519_trailing:
  "hexDecode garbage = [] \<Longrightarrow>
   verifyEd25519 w d (p # hexEncode sg @ garbage) pk = verifyEd25519 w d (p # hexEncode sg) pk"
  by (simp add: verifyEd25519_def hexDecode_hexEncode_append hexDecode_hexEncode)

lemma bob_proofValue:
  "proof_proofValue (vc_proof bobCredential)
   = CHR ''z'' # hexEncode (bytesOfString (canonicalData bobCredential))"
  using issued_proofValue[OF issue_bob, of JPMORGAN_ISSUER]
  by (simp add: bobRequest_def signatureAlgorithmOf_def idealWorld_signCredential)


section \<open>Revocation\<close>




section \<open>The claims\<close>

text \<open>
  C1. Tamper sensitivity fails for the claims, the verified amount and the tier: they are
  members of \<open>credentialSubject\<close> that the property list leaves out of the canonical
  string, so changing them after issuance changes neither the canonical string nor the
  result of \<open>verifyCredential\<close>, in any environment. (\<open>tamper_unsigned_fields\<close> above
  shows the same for the hashed PII and the jurisdictions.) The witness is Bob's
  credential, issued with tier 3: with the tier changed to 2, one flipped bit, it still
  verifies with \<open>valid = true\<close> and no error.
\<close>

theorem unsigned_fields_not_protected:
  "canonicalData
     (c\<lparr> vc_credentialSubject :=
           (vc_credentialSubject c)\<lparr> subj_claims := claims', subj_amountVerifiedFor := amount',
              subj_tier := tier' \<rparr> \<rparr>)
   = canonicalData c \<and>
   verifyCredential w now
     (c\<lparr> vc_credentialSubject :=
           (vc_credentialSubject c)\<lparr> subj_claims := claims', subj_amountVerifiedFor := amount',
              subj_tier := tier' \<rparr> \<rparr>)
   = verifyCredential w now c"
proof
  show same: "canonicalData
     (c\<lparr> vc_credentialSubject :=
           (vc_credentialSubject c)\<lparr> subj_claims := claims', subj_amountVerifiedFor := amount',
              subj_tier := tier' \<rparr> \<rparr>)
   = canonicalData c"
    by (simp add: canonicalData_signedText signedText_def)
  show "verifyCredential w now
     (c\<lparr> vc_credentialSubject :=
           (vc_credentialSubject c)\<lparr> subj_claims := claims', subj_amountVerifiedFor := amount',
              subj_tier := tier' \<rparr> \<rparr>)
   = verifyCredential w now c"
    by (rule verifyCredential_cong[OF same]) simp_all
qed

theorem unsigned_fields_not_protected_witness:
  "issueCredential idealWorld demoTick bobRequest = Inr bobCredential \<and>
   subj_tier (vc_credentialSubject bobCredential) = 3 \<and>
   subj_tier (vc_credentialSubject tamperedCredential) = 2 \<and>
   canonicalData tamperedCredential = canonicalData bobCredential \<and>
   verifyCredential idealWorld 1700000000000 tamperedCredential = \<lparr> valid = True, errors = [] \<rparr>"
proof -
  have t: "tamperedCredential =
     bobCredential\<lparr> vc_credentialSubject :=
           (vc_credentialSubject bobCredential)\<lparr>
              subj_claims := subj_claims (vc_credentialSubject bobCredential),
              subj_amountVerifiedFor := subj_amountVerifiedFor (vc_credentialSubject bobCredential),
              subj_tier := 2 \<rparr> \<rparr>"
    by (simp add: tamperedCredential_def)
  have "canonicalData tamperedCredential = canonicalData bobCredential \<and>
        verifyCredential idealWorld 1700000000000 tamperedCredential
        = verifyCredential idealWorld 1700000000000 bobCredential"
    unfolding t by (rule unsigned_fields_not_protected)
  then show ?thesis
    using issue_bob bob_tier verify_bob
    by (simp add: tamperedCredential_def)
qed




text \<open>
  C3. Two payloads that are equal up to the insertion order of their members, at every
  nesting level, have the same canonical string: \<open>canonicalize\<close>, the
  \<^verbatim>\<open>JSON.stringify(obj, Object.keys(obj).sort())\<close> that \<open>issueCredential\<close> and
  \<open>verifyCredential\<close> both apply to the credential without its proof, returns identical
  strings for them.
\<close>

theorem canonicalize_order_independent:
  assumes "samePayload (JObj a) (JObj b)"
  shows "canonicalize a = canonicalize b"
proof -
  from assms have "sort (map fst a) = sort (map fst b)"
    by (intro sort_keys_eq) auto
  then show ?thesis
    unfolding canonicalize_def using samePayload_serialize[OF assms] by simp
qed

theorem canonicalize_order_independent_witness:
  "samePayload
     (JObj [(''id'', JStr ''did:did3:credential:1''),
            (''issuer'', JObj [(''id'', JStr ''did:did3:bank:hsbc''), (''name'', JStr ''HSBC'')]),
            (''type'', JArr [JStr ''VerifiableCredential'', JStr ''KYCCredential'']),
            (''decommissionedAt'', JNull)])
     (JObj [(''decommissionedAt'', JNull),
            (''type'', JArr [JStr ''VerifiableCredential'', JStr ''KYCCredential'']),
            (''issuer'', JObj [(''name'', JStr ''HSBC''), (''id'', JStr ''did:did3:bank:hsbc'')]),
            (''id'', JStr ''did:did3:credential:1'')])
   \<and> canonicalize
         [(''id'', JStr ''did:did3:credential:1''),
          (''issuer'', JObj [(''id'', JStr ''did:did3:bank:hsbc''), (''name'', JStr ''HSBC'')]),
          (''type'', JArr [JStr ''VerifiableCredential'', JStr ''KYCCredential'']),
          (''decommissionedAt'', JNull)]
     = canonicalize
         [(''decommissionedAt'', JNull),
          (''type'', JArr [JStr ''VerifiableCredential'', JStr ''KYCCredential'']),
          (''issuer'', JObj [(''name'', JStr ''HSBC''), (''id'', JStr ''did:did3:bank:hsbc'')]),
          (''id'', JStr ''did:did3:credential:1'')]"
proof -
  have h: "samePayload
     (JObj [(''id'', JStr ''did:did3:credential:1''),
            (''issuer'', JObj [(''id'', JStr ''did:did3:bank:hsbc''), (''name'', JStr ''HSBC'')]),
            (''type'', JArr [JStr ''VerifiableCredential'', JStr ''KYCCredential'']),
            (''decommissionedAt'', JNull)])
     (JObj [(''decommissionedAt'', JNull),
            (''type'', JArr [JStr ''VerifiableCredential'', JStr ''KYCCredential'']),
            (''issuer'', JObj [(''name'', JStr ''HSBC''), (''id'', JStr ''did:did3:bank:hsbc'')]),
            (''id'', JStr ''did:did3:credential:1'')])"
    by auto
  show ?thesis using h canonicalize_order_independent[OF h] by simp
qed

text \<open>
  C4. When the issuer of a credential cannot be resolved, \<open>verifyCredential\<close> does not
  verify the signature and returns \<open>valid = false\<close>; its error list ends with the
  unknown-issuer entry, after the expiry and revocation entries that apply, which were
  pushed before the issuer was looked up (so the list is the single unknown-issuer entry
  only for a credential that is neither expired nor revoked). When the issuer resolves
  (and its algorithm is one of the two supported), all three checks run and each
  contributes its entry whatever the earlier ones found; \<open>valid\<close> holds exactly when the
  list is empty.
\<close>

theorem verifyCredential_error_list:
  "(getIssuerByDid w (did_id (vc_issuer c)) = None \<longrightarrow>
      verifyCredential w now c =
        \<lparr> valid = False,
          errors = (if expiredAt w now c then [Expired] else []) @
                   (if vc_decommissionedAt c \<noteq> None then [Revoked] else []) @
                   [IssuerNotFound] \<rparr>) \<and>
   (getIssuerByDid w (did_id (vc_issuer c)) = Some issuer \<and>
    (iss_signatureAlgorithm issuer = ''Ed25519'' \<or> iss_signatureAlgorithm issuer = ''secp256k1'') \<longrightarrow>
      errors (verifyCredential w now c) =
        (if expiredAt w now c then [Expired] else []) @
        (if vc_decommissionedAt c \<noteq> None then [Revoked] else []) @
        (if verifySignature w (canonicalData c) (proof_proofValue (vc_proof c))
              (iss_publicKey issuer) (iss_signatureAlgorithm issuer) = Inr True
         then [] else [InvalidSignature]) \<and>
      valid (verifyCredential w now c) = (errors (verifyCredential w now c) = []))"
proof (intro conjI impI)
  assume "getIssuerByDid w (did_id (vc_issuer c)) = None"
  then show "verifyCredential w now c =
        \<lparr> valid = False,
          errors = (if expiredAt w now c then [Expired] else []) @
                   (if vc_decommissionedAt c \<noteq> None then [Revoked] else []) @
                   [IssuerNotFound] \<rparr>"
    by (rule verifyCredential_unknown_issuer)
next
  assume a: "getIssuerByDid w (did_id (vc_issuer c)) = Some issuer \<and>
    (iss_signatureAlgorithm issuer = ''Ed25519'' \<or> iss_signatureAlgorithm issuer = ''secp256k1'')"
  then obtain ok where ok: "verifySignature w (canonicalData c) (proof_proofValue (vc_proof c))
           (iss_publicKey issuer) (iss_signatureAlgorithm issuer) = Inr ok"
    using verifySignature_supported by blast
  from a have iss: "getIssuerByDid w (did_id (vc_issuer c)) = Some issuer" by simp
  show "errors (verifyCredential w now c) =
        (if expiredAt w now c then [Expired] else []) @
        (if vc_decommissionedAt c \<noteq> None then [Revoked] else []) @
        (if verifySignature w (canonicalData c) (proof_proofValue (vc_proof c))
              (iss_publicKey issuer) (iss_signatureAlgorithm issuer) = Inr True
         then [] else [InvalidSignature])"
    by (simp add: verifyCredential_known_issuer[OF iss ok] ok)
  show "valid (verifyCredential w now c) = (errors (verifyCredential w now c) = [])"
    by (simp add: verifyCredential_known_issuer[OF iss ok])
qed

theorem verifyCredential_error_list_witness:
  "verifyCredential idealWorld 1800000000000 strayCredential =
     \<lparr> valid = False, errors = [Expired, Revoked, IssuerNotFound] \<rparr> \<and>
   errors (verifyCredential idealWorld 1800000000000 bobCredential) = [Expired] \<and>
   valid (verifyCredential idealWorld 1800000000000 bobCredential) = False"
proof -
  have sig: "verifySignature idealWorld (canonicalData bobCredential)
               (proof_proofValue (vc_proof bobCredential))
               (iss_publicKey JPMORGAN_ISSUER) (iss_signatureAlgorithm JPMORGAN_ISSUER) = Inr True"
    using verify_bob
    by (auto simp: verifyCredential_def bob_fields Let_def split: sum.splits if_splits)
  show ?thesis
    using verifyCredential_error_list[where w = idealWorld and c = strayCredential
          and now = 1800000000000 and issuer = JPMORGAN_ISSUER]
      verifyCredential_error_list[where w = idealWorld and c = bobCredential
          and now = 1800000000000 and issuer = JPMORGAN_ISSUER]
      sig
    by (simp add: stray_fields bob_fields expiredAt_def demo_dates)
qed

text \<open>
  The claim as stated fails: an expired, revoked credential of an unknown issuer gets
  three entries, not the single unknown-issuer entry.
\<close>

theorem unknown_issuer_counterexample:
  "getIssuerByDid idealWorld (did_id (vc_issuer strayCredential)) = None \<and>
   verifyCredential idealWorld 1800000000000 strayCredential =
     \<lparr> valid = False, errors = [Expired, Revoked, IssuerNotFound] \<rparr>"
  by (simp add: verifyCredential_unknown_issuer stray_fields expiredAt_def demo_dates)

text \<open>
  C5. Issuance first resolves the issuer, then the customer, then requires the three
  screenings to be \<open>passed\<close>: an unknown issuer is reported first, an unknown customer
  second, and a customer with any screening not \<open>passed\<close> gets the compliance error
  before, and whatever, the level and accreditation comparisons would find. The error
  carries one fixed message, which does not tell which screening failed.
\<close>

theorem compliance_gate:
  "(getIssuerByDid w (req_issuerDid request) = None \<longrightarrow>
      issueCredential w t request = Inl (UnknownIssuer (req_issuerDid request))) \<and>
   (getIssuerByDid w (req_issuerDid request) = Some issuer \<and>
    getCustomerKYC w (req_customerKycId request) = None \<longrightarrow>
      issueCredential w t request = Inl (UnknownCustomer (req_customerKycId request))) \<and>
   (getIssuerByDid w (req_issuerDid request) = Some issuer \<and>
    getCustomerKYC w (req_customerKycId request) = Some kycData \<and>
    (kyc_amlScreening kycData \<noteq> ''passed'' \<or>
     kyc_sanctionsCheck kycData \<noteq> ''passed'' \<or>
     kyc_pepScreening kycData \<noteq> ''passed'') \<longrightarrow>
      issueCredential w t request = Inl ComplianceCheckFailed \<and>
      errorMessage ComplianceCheckFailed = ''Customer has not passed all required KYC checks'')"
  by (auto simp: issueCredential_def)

theorem compliance_gate_witness:
  "issueCredential idealWorld demoTick unknownIssuerRequest
     = Inl (UnknownIssuer ''did:did3:bank:nobody'') \<and>
   issueCredential idealWorld demoTick unknownCustomerRequest = Inl (UnknownCustomer ''KYC-404'') \<and>
   issueCredential idealWorld demoTick sanctionedRequest = Inl ComplianceCheckFailed"
  using compliance_gate[where w = idealWorld and t = demoTick and request = unknownIssuerRequest]
    compliance_gate[where w = idealWorld and t = demoTick and request = unknownCustomerRequest
      and issuer = JPMORGAN_ISSUER]
    compliance_gate[where w = idealWorld and t = demoTick and request = sanctionedRequest
      and issuer = JPMORGAN_ISSUER and kycData = customerSanctioned]
  by simp

text \<open>
  The claim as stated fails in that the error names no check: a customer whose sanctions
  check failed and a customer whose AML screening failed are refused with the same error
  and the same message.
\<close>

theorem compliance_error_counterexample:
  "kyc_sanctionsCheck customerSanctioned = ''failed'' \<and>
   kyc_amlScreening customerSanctioned = ''passed'' \<and>
   kyc_amlScreening customerAmlFailed = ''failed'' \<and>
   kyc_sanctionsCheck customerAmlFailed = ''passed'' \<and>
   issueCredential idealWorld demoTick sanctionedRequest = Inl ComplianceCheckFailed \<and>
   issueCredential idealWorld demoTick amlFailedRequest = Inl ComplianceCheckFailed \<and>
   errorMessage ComplianceCheckFailed = ''Customer has not passed all required KYC checks''"
  by (simp add: issueCredential_def)

text \<open>
  C6. With \<open>e\<close> the instant the credential's expiration date denotes, verification at
  time \<open>now\<close> reports the expiry error exactly when \<open>now\<close> is strictly later than \<open>e\<close>.
  At \<open>now = e\<close> there is no expiry error, and the credential is valid there exactly when
  it is not revoked, its issuer resolves and its signature verifies.
\<close>

theorem expiration_boundary:
  assumes "lib_parseDate w (vc_expirationDate c) = Some e"
  shows "(Expired \<in> set (errors (verifyCredential w now c))) = (e < now) \<and>
         valid (verifyCredential w e c) =
           (vc_decommissionedAt c = None \<and>
            (\<exists>issuer. getIssuerByDid w (did_id (vc_issuer c)) = Some issuer \<and>
               verifySignature w (canonicalData c) (proof_proofValue (vc_proof c))
                 (iss_publicKey issuer) (iss_signatureAlgorithm issuer) = Inr True))"
  using assms
  by (auto simp: verifyCredential_def expiredAt_def Let_def split: option.splits sum.splits)

theorem expiration_boundary_witness:
  "lib_parseDate idealWorld (vc_expirationDate bobCredential) = Some 1715552000000 \<and>
   Expired \<notin> set (errors (verifyCredential idealWorld 1715552000000 bobCredential)) \<and>
   valid (verifyCredential idealWorld 1715552000000 bobCredential) \<and>
   Expired \<in> set (errors (verifyCredential idealWorld 1715552000001 bobCredential))"
proof -
  have h: "lib_parseDate idealWorld (vc_expirationDate bobCredential) = Some 1715552000000"
    by (simp add: bob_fields demo_dates)
  show ?thesis
    using h expiration_boundary[OF h, of 1715552000000]
      expiration_boundary[OF h, of 1715552000001] bob_signature
    by (simp add: bob_fields)
qed

text \<open>
  C7. A malformed signature string is not always rejected. \<open>verifyEd25519\<close> decodes the
  signature with \<^verbatim>\<open>Buffer.from(signatureWithPrefix.slice(1), 'hex')\<close>, which stops
  silently at the first character that is not a hexadecimal digit; so characters that do
  not decode, appended to a signature string, do not change the result of
  \<open>verifySignature\<close>. The witness is the signature of Bob's credential followed by \<open>zz\<close>,
  a string of the wrong length that holds non-hexadecimal characters: it verifies.
  The other two parts of the claim hold: \<open>verifySignature_unsupported\<close> and
  \<open>verifySignature_supported\<close> above show that an unrecognised algorithm yields
  \<open>UnsupportedAlgorithm\<close> and that a recognised one always returns a boolean.
\<close>

theorem trailing_garbage_accepted:
  assumes "hexDecode garbage = []"
  shows "verifySignature w d (p # hexEncode sg @ garbage) pk ''Ed25519''
         = verifySignature w d (p # hexEncode sg) pk ''Ed25519''"
  using assms by (simp add: verifySignature_def verifyEd25519_trailing)

theorem trailing_garbage_accepted_witness:
  "signCredential idealWorld (canonicalData bobCredential) (iss_privateKey JPMORGAN_ISSUER)
     ''Ed25519'' = Inr (proof_proofValue (vc_proof bobCredential)) \<and>
   hexDecode ''zz'' = [] \<and>
   verifySignature idealWorld (canonicalData bobCredential)
     (proof_proofValue (vc_proof bobCredential) @ ''zz'')
     (iss_publicKey JPMORGAN_ISSUER) ''Ed25519'' = Inr True"
proof -
  have g: "hexDecode ''zz'' = []" by (simp add: hexValue_def)
  show ?thesis
    using g bob_signature
      trailing_garbage_accepted[OF g, where w = idealWorld and d = "canonicalData bobCredential"
        and p = "CHR ''z''" and sg = "bytesOfString (canonicalData bobCredential)"
        and pk = "iss_publicKey JPMORGAN_ISSUER"]
    by (simp add: bob_proofValue idealWorld_signCredential)
qed

text \<open>
  C8. \<open>batchIssueCredentials\<close> returns, in input order, the credentials of the requests
  that \<open>issueCredential\<close> accepts on their own and, in input order, the requests it
  refuses on their own with the message of their error. So every request lands in
  exactly one of the two lists, the outcome of a request does not depend on the others
  (the result for a concatenation is the concatenation of the results), and every member
  of \<open>successful\<close> is a credential that \<open>issueCredential\<close> returned, proof attached.
\<close>

theorem batch_outcomes:
  "fst (batchIssueCredentials w requests) = List.map_filter (issuedBy w) requests \<and>
   snd (batchIssueCredentials w requests) = List.map_filter (refusedBy w) requests \<and>
   length (fst (batchIssueCredentials w requests)) + length (snd (batchIssueCredentials w requests))
     = length requests \<and>
   batchIssueCredentials w (requests @ others) =
     (fst (batchIssueCredentials w requests) @ fst (batchIssueCredentials w others),
      snd (batchIssueCredentials w requests) @ snd (batchIssueCredentials w others)) \<and>
   (\<forall>c \<in> set (fst (batchIssueCredentials w requests)).
      \<exists>p \<in> set requests. issueCredential w (fst p) (snd p) = Inr c)"
proof -
  have "\<exists>p \<in> set requests. issueCredential w (fst p) (snd p) = Inr c"
    if "c \<in> set (List.map_filter (issuedBy w) requests)" for c
  proof -
    from that obtain p where p: "p \<in> set requests" and "issuedBy w p = Some c"
      by (auto simp: List.map_filter_def)
    then have "issueCredential w (fst p) (snd p) = Inr c"
      by (auto simp: issuedBy_def split: sum.splits)
    with p show ?thesis by blast
  qed
  then show ?thesis
    by (simp add: batchIssueCredentials_def batchLoop_spec map_filter_lengths
          map_filter_append)
qed

theorem batch_outcomes_witness:
  "batchIssueCredentials idealWorld
     [(demoTick, bobRequest), (demoTick, unknownCustomerRequest), (demoTick, aliceRequest)]
   = ([bobCredential, aliceCredential],
      [(unknownCustomerRequest, ''Customer not found: KYC-404'')])"
proof -
  have u: "issueCredential idealWorld demoTick unknownCustomerRequest
           = Inl (UnknownCustomer ''KYC-404'')"
    by (simp add: issueCredential_def)
  show ?thesis
    using batch_outcomes[where w = idealWorld and others = "[]" and requests =
        "[(demoTick, bobRequest), (demoTick, unknownCustomerRequest), (demoTick, aliceRequest)]"]
    by (simp add: prod_eq_iff List.map_filter_simps issuedBy_def refusedBy_def
          issue_bob issue_alice u)
qed





end
